theory Spec2Isabelle
  imports Complex_Main
begin

section \<open>Python values, exceptions and module-level names\<close>

text \<open>
  The notebook \<^verbatim>\<open>notebooks/AzureOpenAI_OnYourData_Elasticsearch.ipynb\<close> defines, in its
  helper cell, the class \<^verbatim>\<open>SampleCsvDatasets\<close> and the functions \<^verbatim>\<open>create_index\<close>,
  \<^verbatim>\<open>index_data\<close> and \<^verbatim>\<open>chat_with_my_data\<close>. Every raise of the Python code is a value
  \<open>Inl e\<close> of the model; a normal return is \<open>Inr v\<close>.
\<close>

datatype exn =
    KeyError string
  | NameError string
  | AttributeError string
  | ValueError string
  | IndexError string
  | StatisticsError string
  | NotFoundError string
  | BadRequestError string
  | Exception string

text \<open>
  A free name of a function body (one that is neither a parameter nor assigned in the
  body) is resolved in the module's global namespace when the body runs. The values such
  a name can hold here are strings and modules with string attributes.
\<close>

datatype pyval = Str string | Module "(string \<times> string) list"

type_synonym globals = "string \<Rightarrow> pyval option"

text \<open>
  The interactive inputs of the configuration cell, and the module-level names of the
  notebook that hold a string or the \<^verbatim>\<open>openai\<close> module. The other module-level names of
  the notebook (imports, the class, the functions, the clients, dictionaries) are
  \<^verbatim>\<open>math np pd statistics StringIO sleep perf_counter urlopen SampleCsvDatasets create_index
  index_data chat_with_my_data getpass Elasticsearch datasets elastic_client Session
  HTTPAdapter OnYourDataAdapter session mapping_properties dataframe IngestClient
  ingest_processors on_failure ingest_client reindex_source reindex_dest response
  is_completed task\<close>; none of them is a name looked up below.
\<close>

record settings =
  input_elasticsearch_endpoint :: string
  input_elasticsearch_api_key :: string
  input_api_base :: string
  input_api_key :: string
  input_chat_model_deployment_name :: string
  input_embedding_model_deployment_name :: string

definition notebook_globals :: "settings \<Rightarrow> globals" where
  "notebook_globals s =
     [''elasticsearch_endpoint'' \<mapsto> Str (input_elasticsearch_endpoint s),
      ''elasticsearch_api_key'' \<mapsto> Str (input_elasticsearch_api_key s),
      ''openai'' \<mapsto> Module [(''api_base'', input_api_base s), (''api_key'', input_api_key s)],
      ''chat_model_deployment_name'' \<mapsto> Str (input_chat_model_deployment_name s),
      ''embedding_model_deployment_name'' \<mapsto> Str (input_embedding_model_deployment_name s),
      ''elasticsearch_index_name'' \<mapsto> Str ''msmarco-passagetest2019-unique'',
      ''pipeline_id'' \<mapsto> Str ''msmarco-minilm-l-12-v3'',
      ''elasticsearch_embeddings_index_name'' \<mapsto>
         Str ''msmarco-passagetest2019-unique-msmarco-minilm-l-12-v3'',
      ''aoai_embeddings_index_name'' \<mapsto>
         Str (''msmarco-passagetest2019-unique-'' @ input_embedding_model_deployment_name s),
      ''chat_query'' \<mapsto> Str ''What's the weather like in Jamaica?'']"

definition example_settings :: settings where
  "example_settings =
     \<lparr>input_elasticsearch_endpoint = ''https://es.example'',
      input_elasticsearch_api_key = ''es-key'',
      input_api_base = ''https://aoai.example'',
      input_api_key = ''aoai-key'',
      input_chat_model_deployment_name = ''gpt-35-turbo'',
      input_embedding_model_deployment_name = ''text-embedding-ada-002''\<rparr>"

section \<open>The Elasticsearch client\<close>

text \<open>
  The search engine is an external service. Its state is the set of indices, each with
  its mappings and its documents, and the requests it has received. Only the three
  calls the notebook's helpers make are modelled, with the documented behaviour of the
  index API: deleting a missing index is an error unless \<^verbatim>\<open>ignore_unavailable\<close> is set,
  creating an index that exists is an error, and a bulk request is a sequence of
  action lines each followed by its document, an \<^verbatim>\<open>index\<close> action appending the document
  to the index it names (creating that index with dynamic mappings when it is missing).
\<close>

datatype 'p mappings = Properties 'p | Dynamic

datatype 'r operation = IndexAction string | Document 'r

datatype ('p, 'r) request =
    IndicesDelete string bool
  | IndicesCreate string "'p mappings"
  | Bulk string "'r operation list" bool

record ('p, 'r) es_index =
  index_mappings :: "'p mappings"
  documents :: "'r list"

record ('p, 'r) elastic_client =
  indices :: "string \<Rightarrow> ('p, 'r) es_index option"
  requests :: "('p, 'r) request list"

definition received ::
  "('p, 'r) request \<Rightarrow> ('p, 'r) elastic_client \<Rightarrow> ('p, 'r) elastic_client" where
  "received q c = c\<lparr>requests := requests c @ [q]\<rparr>"

definition indices_delete ::
  "('p, 'r) elastic_client \<Rightarrow> string \<Rightarrow> bool \<Rightarrow> exn + ('p, 'r) elastic_client" where
  "indices_delete c index ignore_unavailable =
     (case indices c index of
        None \<Rightarrow>
          if ignore_unavailable
          then Inr (received (IndicesDelete index ignore_unavailable) c)
          else Inl (NotFoundError index)
      | Some _ \<Rightarrow>
          Inr (received (IndicesDelete index ignore_unavailable)
                 (c\<lparr>indices := (indices c)(index := None)\<rparr>)))"

definition indices_create ::
  "('p, 'r) elastic_client \<Rightarrow> string \<Rightarrow> 'p mappings \<Rightarrow> exn + ('p, 'r) elastic_client" where
  "indices_create c index m =
     (case indices c index of
        Some _ \<Rightarrow> Inl (BadRequestError ''resource_already_exists_exception'')
      | None \<Rightarrow>
          Inr (received (IndicesCreate index m)
                 (c\<lparr>indices := (indices c)(index \<mapsto> \<lparr>index_mappings = m, documents = []\<rparr>)\<rparr>)))"

fun bulk_apply ::
  "'r operation list \<Rightarrow> (string \<Rightarrow> ('p, 'r) es_index option) \<Rightarrow>
   exn + (string \<Rightarrow> ('p, 'r) es_index option)" where
  "bulk_apply [] ix = Inr ix"
| "bulk_apply (IndexAction i # Document r # ops) ix =
     bulk_apply ops
       (ix(i \<mapsto> (case ix i of
                   None \<Rightarrow> \<lparr>index_mappings = Dynamic, documents = [r]\<rparr>
                 | Some x \<Rightarrow> x\<lparr>documents := documents x @ [r]\<rparr>)))"
| "bulk_apply _ ix = Inl (BadRequestError ''Malformed action/metadata line'')"

definition bulk ::
  "('p, 'r) elastic_client \<Rightarrow> string \<Rightarrow> 'r operation list \<Rightarrow> bool \<Rightarrow>
   exn + ('p, 'r) elastic_client" where
  "bulk c index operations refresh =
     (case bulk_apply operations (indices c) of
        Inl e \<Rightarrow> Inl e
      | Inr ix \<Rightarrow> Inr (received (Bulk index operations refresh) (c\<lparr>indices := ix\<rparr>)))"

section \<open>\<^verbatim>\<open>create_index\<close>\<close>

text \<open>
  \<^verbatim>\<open>
  def create_index(elastic_client, index_name: str, **properties):
      mappings = {"properties": properties}
      elastic_client.indices.delete(index=index_name, ignore_unavailable=True)
      elastic_client.indices.create(index=index_name, mappings=mappings)
  \<close>
\<close>

definition create_index ::
  "('p, 'r) elastic_client \<Rightarrow> string \<Rightarrow> 'p \<Rightarrow> exn + ('p, 'r) elastic_client" where
  "create_index elastic_client index_name properties =
     (let mappings = Properties properties in
      case indices_delete elastic_client index_name True of
        Inl e \<Rightarrow> Inl e
      | Inr c \<Rightarrow> indices_create c index_name mappings)"

section \<open>\<^verbatim>\<open>index_data\<close>\<close>

text \<open>
  \<^verbatim>\<open>
  def index_data(elastic_client, dataset_reader, index_name):
      operations_chunks = []
      chunk = []
      max_operations_chunk_size = 10000
      chunk_size = 0
      for row in dataset_reader:
          if chunk_size < max_operations_chunk_size:
              chunk.append({"index": {"_index": index_name}})
              chunk.append(row)
              chunk_size += 1
          else:
              operations_chunks.append(chunk)
              chunk = []
              chunk_size = 0
      if len(chunk) > 0:
          operations_chunks.append(chunk)
      for chunk in operations_chunks:
          elastic_client.bulk(index=index_name, operations=chunk, refresh=True)
  \<close>
  The iterable \<^verbatim>\<open>dataset_reader\<close> is the list of the rows it yields. The loop state is
  the triple of \<^verbatim>\<open>operations_chunks\<close>, \<^verbatim>\<open>chunk\<close> and \<^verbatim>\<open>chunk_size\<close>. The \<^verbatim>\<open>else\<close> branch
  closes the chunk and does nothing with the row in hand.
\<close>

definition max_operations_chunk_size :: nat where
  "max_operations_chunk_size = 10000"

fun chunk_rows ::
  "string \<Rightarrow> 'r list \<Rightarrow> 'r operation list list \<times> 'r operation list \<times> nat \<Rightarrow>
   'r operation list list \<times> 'r operation list \<times> nat" where
  "chunk_rows index_name [] st = st"
| "chunk_rows index_name (row # dataset_reader) (operations_chunks, chunk, chunk_size) =
     (if chunk_size < max_operations_chunk_size
      then chunk_rows index_name dataset_reader
             (operations_chunks, chunk @ [IndexAction index_name, Document row], chunk_size + 1)
      else chunk_rows index_name dataset_reader (operations_chunks @ [chunk], [], 0))"

fun send_chunks ::
  "string \<Rightarrow> 'r operation list list \<Rightarrow> ('p, 'r) elastic_client \<Rightarrow>
   exn + ('p, 'r) elastic_client" where
  "send_chunks index_name [] c = Inr c"
| "send_chunks index_name (chunk # operations_chunks) c =
     (case bulk c index_name chunk True of
        Inl e \<Rightarrow> Inl e
      | Inr c' \<Rightarrow> send_chunks index_name operations_chunks c')"

definition index_data ::
  "('p, 'r) elastic_client \<Rightarrow> 'r list \<Rightarrow> string \<Rightarrow> exn + ('p, 'r) elastic_client" where
  "index_data elastic_client dataset_reader index_name =
     (case chunk_rows index_name dataset_reader ([], [], 0) of
        (operations_chunks, chunk, chunk_size) \<Rightarrow>
          send_chunks index_name
            (if length chunk > 0 then operations_chunks @ [chunk] else operations_chunks)
            elastic_client)"

text \<open>The rows a request carries, and a client that has no index and has seen no request.\<close>

fun operation_rows :: "'r operation list \<Rightarrow> 'r list" where
  "operation_rows [] = []"
| "operation_rows (Document r # ops) = r # operation_rows ops"
| "operation_rows (IndexAction i # ops) = operation_rows ops"

fun request_rows :: "('p, 'r) request \<Rightarrow> 'r list" where
  "request_rows (Bulk index ops refresh) = operation_rows ops"
| "request_rows _ = []"

definition fresh_client :: "('p, 'r) elastic_client" where
  "fresh_client = \<lparr>indices = (\<lambda>_. None), requests = []\<rparr>"

section \<open>\<^verbatim>\<open>SampleCsvDatasets\<close>\<close>

text \<open>
  A dataframe is the list of its rows together with its columns, each column reading
  one cell off a row: \<^verbatim>\<open>len(df)\<close> is the number of rows, and \<^verbatim>\<open>df[c].tolist()\<close> is the
  column \<open>c\<close> applied to every row, a \<^verbatim>\<open>KeyError\<close> when there is no such column.
\<close>

record ('r, 'c) dataframe =
  rows :: "'r list"
  columns :: "string \<Rightarrow> ('r \<Rightarrow> 'c) option"

definition column_tolist :: "('r, 'c) dataframe \<Rightarrow> string \<Rightarrow> exn + 'c list" where
  "column_tolist df c =
     (case columns df c of
        None \<Rightarrow> Inl (KeyError c)
      | Some cell \<Rightarrow> Inr (map cell (rows df)))"

record dataset_config =
  url :: string
  fieldnames :: "string list"
  delimiter :: string

definition datasets :: "(string \<times> dataset_config) list" where
  "datasets =
     [(''msmarco'',
       \<lparr>url = ''https://github.com/mayya-sharipova/msmarco/raw/main/msmarco-passagetest2019-unique.tsv'',
        fieldnames = [''id'', ''text''],
        delimiter = [CHR 0x09]\<rparr>)]"

record ('r, 'c) SampleCsvDatasets =
  self_values :: "string \<Rightarrow> ('r, 'c) dataframe option"

text \<open>
  \<^verbatim>\<open>
  def _create_dataframe(self, dataset_name, value):
      return pd.read_csv(
          StringIO(value),
          delimiter=self.datasets.get(dataset_name).get("delimiter"),
          names=self.datasets.get(dataset_name).get("fieldnames"))
  \<close>
  \<^verbatim>\<open>pd.read_csv\<close> is a parameter: the text, the delimiter and the column names give a
  dataframe or an exception.
\<close>

definition create_dataframe ::
  "(string \<Rightarrow> string \<Rightarrow> string list \<Rightarrow> exn + ('r, 'c) dataframe) \<Rightarrow> string \<Rightarrow> string \<Rightarrow>
   exn + ('r, 'c) dataframe" where
  "create_dataframe read_csv dataset_name value =
     (case map_of datasets dataset_name of
        None \<Rightarrow> Inl (AttributeError ''get'')
      | Some config \<Rightarrow> read_csv value (delimiter config) (fieldnames config))"

text \<open>
  \<^verbatim>\<open>
  def __init__(self):
      self._values = {}
      for name, config in self.datasets.items():
          url = config.get("url")
          response = urlopen(url)
          self._values[name] = self._create_dataframe(name, response.read().decode("utf-8"))
  \<close>
  \<^verbatim>\<open>urlopen\<close>, with the read and the decoding of the response, is a parameter. The loop
  state is \<^verbatim>\<open>self._values\<close> and the local variable \<^verbatim>\<open>name\<close> of \<^verbatim>\<open>__init__\<close>
  (unbound before the first iteration).
\<close>

fun init_loop ::
  "(string \<Rightarrow> exn + string) \<Rightarrow> (string \<Rightarrow> string \<Rightarrow> string list \<Rightarrow> exn + ('r, 'c) dataframe) \<Rightarrow>
   (string \<times> dataset_config) list \<Rightarrow>
   (string \<Rightarrow> ('r, 'c) dataframe option) \<times> string option \<Rightarrow>
   exn + ((string \<Rightarrow> ('r, 'c) dataframe option) \<times> string option)" where
  "init_loop urlopen read_csv [] st = Inr st"
| "init_loop urlopen read_csv ((name, config) # items) (vals, local_name) =
     (case urlopen (url config) of
        Inl e \<Rightarrow> Inl e
      | Inr text \<Rightarrow>
          (case create_dataframe read_csv name text of
             Inl e \<Rightarrow> Inl e
           | Inr df \<Rightarrow> init_loop urlopen read_csv items (vals(name \<mapsto> df), Some name)))"

definition init ::
  "(string \<Rightarrow> exn + string) \<Rightarrow> (string \<Rightarrow> string \<Rightarrow> string list \<Rightarrow> exn + ('r, 'c) dataframe) \<Rightarrow>
   exn + ('r, 'c) SampleCsvDatasets" where
  "init urlopen read_csv =
     (case init_loop urlopen read_csv datasets (Map.empty, None) of
        Inl e \<Rightarrow> Inl e
      | Inr (vals, local_name) \<Rightarrow> Inr \<lparr>self_values = vals\<rparr>)"

text \<open>
  \<^verbatim>\<open>
  def get_dataframe(self, dataset_name, add_aoai_embeddings=False):
      return self._values[name]
  \<close>
  \<^verbatim>\<open>name\<close> is not a parameter and is not assigned in this body: it is a free name,
  resolved in the module's globals. (The \<^verbatim>\<open>name\<close> of \<^verbatim>\<open>__init__\<close> is local to
  \<^verbatim>\<open>__init__\<close>.) A module used as dictionary key is a key no dataset is stored under.
\<close>

definition get_dataframe ::
  "globals \<Rightarrow> ('r, 'c) SampleCsvDatasets \<Rightarrow> string \<Rightarrow> bool \<Rightarrow> exn + ('r, 'c) dataframe" where
  "get_dataframe g self dataset_name add_aoai_embeddings =
     (case g ''name'' of
        None \<Rightarrow> Inl (NameError ''name'')
      | Some (Module attrs) \<Rightarrow> Inl (KeyError ''module'')
      | Some (Str key) \<Rightarrow>
          (case self_values self key of
             None \<Rightarrow> Inl (KeyError key)
           | Some df \<Rightarrow> Inr df))"

section \<open>\<^verbatim>\<open>get_dataframe_with_aoai_embeddings\<close>\<close>

text \<open>
  \<^verbatim>\<open>np.array_split(ary, Nsections)\<close> for an integer number of sections, as numpy
  computes it:
  \<^verbatim>\<open>
  Ntotal = len(ary)
  Nsections = int(indices_or_sections)
  if Nsections <= 0:
      raise ValueError('number sections must be larger than 0.')
  Neach_section, extras = divmod(Ntotal, Nsections)
  section_sizes = ([0] + extras * [Neach_section+1] + (Nsections-extras) * [Neach_section])
  div_points = array(section_sizes).cumsum()
  sub_arys = []
  for i in range(Nsections):
      st = div_points[i]
      end = div_points[i + 1]
      sub_arys.append(sary[st:end])
  return sub_arys
  \<close>
\<close>

fun cumsum_from :: "nat \<Rightarrow> nat list \<Rightarrow> nat list" where
  "cumsum_from acc [] = []"
| "cumsum_from acc (x # xs) = (acc + x) # cumsum_from (acc + x) xs"

definition cumsum :: "nat list \<Rightarrow> nat list" where
  "cumsum xs = cumsum_from 0 xs"

definition slice :: "'a list \<Rightarrow> nat \<Rightarrow> nat \<Rightarrow> 'a list" where
  "slice xs st en = take (en - st) (drop st xs)"

definition array_split :: "'a list \<Rightarrow> nat \<Rightarrow> exn + 'a list list" where
  "array_split ary Nsections =
     (if Nsections \<le> 0 then Inl (ValueError ''number sections must be larger than 0.'')
      else
        let Ntotal = length ary;
            Neach_section = Ntotal div Nsections;
            extras = Ntotal mod Nsections;
            section_sizes =
              [0] @ replicate extras (Neach_section + 1) @
              replicate (Nsections - extras) Neach_section;
            div_points = cumsum section_sizes
        in Inr (map (\<lambda>i. slice ary (div_points ! i) (div_points ! (i + 1))) [0..<Nsections]))"

text \<open>
  \<^verbatim>\<open>
  maximum_batch_size = 16
  throttling_interval = 0.5
  retry_count = 20
  number_of_buckets = math.ceil(len(df) / maximum_batch_size)
  partitions = np.array_split(df, number_of_buckets)
  \<close>
  A dataframe is split along its rows; each part keeps the columns. The ceiling of
  the quotient is computed on natural numbers (the floating-point quotient by 16 is
  exact for every length a dataframe can have).
\<close>

definition maximum_batch_size :: nat where
  "maximum_batch_size = 16"

definition throttling_interval :: real where
  "throttling_interval = 0.5"

definition retry_count :: nat where
  "retry_count = 20"

definition number_of_buckets :: "('r, 'c) dataframe \<Rightarrow> nat" where
  "number_of_buckets df =
     (length (rows df) + (maximum_batch_size - 1)) div maximum_batch_size"

definition partitions_of :: "('r, 'c) dataframe \<Rightarrow> exn + ('r, 'c) dataframe list" where
  "partitions_of df =
     (case array_split (rows df) (number_of_buckets df) of
        Inl e \<Rightarrow> Inl e
      | Inr parts \<Rightarrow> Inr (map (\<lambda>part. df\<lparr>rows := part\<rparr>) parts))"

text \<open>
  The local state of the method while it runs: the list \<^verbatim>\<open>embeddings\<close>, the number of
  entries of \<^verbatim>\<open>request_times\<close> (the entries are clock differences), the durations passed
  to \<^verbatim>\<open>sleep\<close> so far, and the number of requests the embedding provider has received.

  The provider \<^verbatim>\<open>openai.Embedding.create\<close> is a parameter: given how many requests it
  has received before, the deployment and the input texts, it raises or answers with
  the list of the embeddings of the entries of its \<^verbatim>\<open>data\<close>.
\<close>

record 'e locals =
  embeddings :: "'e list"
  request_times :: nat
  sleeps :: "real list"
  calls :: nat

definition initial_locals :: "'e locals" where
  "initial_locals = \<lparr>embeddings = [], request_times = 0, sleeps = [], calls = 0\<rparr>"

type_synonym ('c, 'e) provider = "nat \<Rightarrow> string \<Rightarrow> 'c list \<Rightarrow> exn + 'e list"

text \<open>
  The callee and the arguments of the request, evaluated inside the \<^verbatim>\<open>try\<close>: the global
  \<^verbatim>\<open>openai\<close>, then \<^verbatim>\<open>partition[text_column_name].tolist()\<close>.
\<close>

definition embedding_input ::
  "globals \<Rightarrow> ('r, 'c) dataframe \<Rightarrow> string \<Rightarrow> exn + 'c list" where
  "embedding_input g part text_column_name =
     (case g ''openai'' of
        None \<Rightarrow> Inl (NameError ''openai'')
      | Some (Str s) \<Rightarrow> Inl (AttributeError ''Embedding'')
      | Some (Module attrs) \<Rightarrow> column_tolist part text_column_name)"

text \<open>
  One iteration of \<^verbatim>\<open>for i in range(retry_count)\<close>, on the flag \<^verbatim>\<open>success\<close> and the
  local state:
  \<^verbatim>\<open>
  try:
      request_start = perf_counter()
      text_embedding_response = openai.Embedding.create(
          deployment_id=embedding_model_deployment_name,
          input=partition[text_column_name].tolist(),
          api_version="2023-03-15-preview")
      embeddings.extend([result["embedding"] for result in text_embedding_response["data"]])
      sleep(throttling_interval)
      request_end = perf_counter()
      request_times.append(request_end-request_start)
      success = True
  except Exception as e:
      print(f"Encountered the following exception when creating embeddings (retrying): {str(e)}")
      sleep(5)
  \<close>
  There is no \<^verbatim>\<open>break\<close>: the \<^verbatim>\<open>for\<close> runs its \<^verbatim>\<open>retry_count\<close> iterations whatever the
  flag says.
\<close>

definition attempt ::
  "globals \<Rightarrow> ('c, 'e) provider \<Rightarrow> string \<Rightarrow> string \<Rightarrow> ('r, 'c) dataframe \<Rightarrow>
   bool \<times> 'e locals \<Rightarrow> bool \<times> 'e locals" where
  "attempt g create deployment text_column_name part sl =
     (case sl of (success, l) \<Rightarrow>
        (case embedding_input g part text_column_name of
           Inl e \<Rightarrow> (success, l\<lparr>sleeps := sleeps l @ [5]\<rparr>)
         | Inr texts \<Rightarrow>
             (case create (calls l) deployment texts of
                Inl e \<Rightarrow> (success, l\<lparr>sleeps := sleeps l @ [5], calls := calls l + 1\<rparr>)
              | Inr vectors \<Rightarrow>
                  (True,
                   l\<lparr>embeddings := embeddings l @ vectors,
                     sleeps := sleeps l @ [throttling_interval],
                     request_times := request_times l + 1,
                     calls := calls l + 1\<rparr>))))"

text \<open>
  \<^verbatim>\<open>
  for partition in partitions:
      success = False
      for i in range(retry_count):
          ...
      if not success:
          raise Exception("Unable to generate embeddings (see previous error output for more information.)")
  \<close>
\<close>

definition unable :: exn where
  "unable = Exception ''Unable to generate embeddings (see previous error output for more information.)''"

fun embed_partitions ::
  "globals \<Rightarrow> ('c, 'e) provider \<Rightarrow> string \<Rightarrow> string \<Rightarrow> ('r, 'c) dataframe list \<Rightarrow>
   'e locals \<Rightarrow> (exn + unit) \<times> 'e locals" where
  "embed_partitions g create deployment text_column_name [] l = (Inr (), l)"
| "embed_partitions g create deployment text_column_name (part # partitions) l =
     (case (attempt g create deployment text_column_name part ^^ retry_count) (False, l) of
        (success, l') \<Rightarrow>
          if \<not> success then (Inl unable, l')
          else embed_partitions g create deployment text_column_name partitions l')"

text \<open>
  After the loop:
  \<^verbatim>\<open>
  end = perf_counter()
  df[text_embeddings_column_name] == embeddings
  print(f"Average request time for {len(partition)} records: {statistics.mean(request_times)}")
  print(f"Total time: {end-start}")
  \<close>
  The second line is an expression statement, a comparison whose value is dropped: it
  assigns nothing. Its \<^verbatim>\<open>text_embeddings_column_name\<close> is a free name (the parameter is
  \<^verbatim>\<open>embeddings_column_name\<close>), and \<^verbatim>\<open>df[key]\<close> raises for a key that is no column. A
  comparison of a column with a list of another length raises; one with a list of the
  same length is taken to pass. \<^verbatim>\<open>statistics.mean\<close> raises on an empty list.
\<close>

definition compare_and_report :: "globals \<Rightarrow> ('r, 'c) dataframe \<Rightarrow> 'e locals \<Rightarrow> exn + unit" where
  "compare_and_report g df l =
     (case g ''text_embeddings_column_name'' of
        None \<Rightarrow> Inl (NameError ''text_embeddings_column_name'')
      | Some (Module attrs) \<Rightarrow> Inl (KeyError ''module'')
      | Some (Str key) \<Rightarrow>
          (case columns df key of
             None \<Rightarrow> Inl (KeyError key)
           | Some cell \<Rightarrow>
               if length (rows df) \<noteq> length (embeddings l)
               then Inl (ValueError ''Lengths must match to compare'')
               else if request_times l = 0
               then Inl (StatisticsError ''mean requires at least one data point'')
               else Inr ()))"

text \<open>
  The method as it runs: its outcome (an exception, or the return of \<^verbatim>\<open>None\<close>) and
  its local state at that point.
  \<^verbatim>\<open>
  def get_dataframe_with_aoai_embeddings(self, dataset_name, embedding_model_deployment_name,
          text_column_name="text",
          embeddings_column_name="text_embedding.aoai_predicted_value",
          model_name="text-embedding-ada-002"):
      df = self._values[dataset_name]
      ...
  \<close>
\<close>

definition run_aoai_embeddings ::
  "globals \<Rightarrow> ('c, 'e) provider \<Rightarrow> ('r, 'c) SampleCsvDatasets \<Rightarrow> string \<Rightarrow> string \<Rightarrow> string \<Rightarrow>
   string \<Rightarrow> string \<Rightarrow> (exn + unit) \<times> 'e locals" where
  "run_aoai_embeddings g create self dataset_name embedding_model_deployment_name
       text_column_name embeddings_column_name model_name =
     (case self_values self dataset_name of
        None \<Rightarrow> (Inl (KeyError dataset_name), initial_locals)
      | Some df \<Rightarrow>
          (case partitions_of df of
             Inl e \<Rightarrow> (Inl e, initial_locals)
           | Inr partitions \<Rightarrow>
               (case embed_partitions g create embedding_model_deployment_name
                       text_column_name partitions initial_locals of
                  (Inl e, l) \<Rightarrow> (Inl e, l)
                | (Inr u, l) \<Rightarrow> (compare_and_report g df l, l))))"

text \<open>
  What the caller has after the call: the outcome, and the object. No statement of the
  method assigns to \<^verbatim>\<open>self._values\<close> or to a column of \<^verbatim>\<open>df\<close>, so the object is the one
  passed in.
\<close>

definition get_dataframe_with_aoai_embeddings ::
  "globals \<Rightarrow> ('c, 'e) provider \<Rightarrow> ('r, 'c) SampleCsvDatasets \<Rightarrow> string \<Rightarrow> string \<Rightarrow> string \<Rightarrow>
   string \<Rightarrow> string \<Rightarrow> (exn + unit) \<times> ('r, 'c) SampleCsvDatasets" where
  "get_dataframe_with_aoai_embeddings g create self dataset_name
       embedding_model_deployment_name text_column_name embeddings_column_name model_name =
     (fst (run_aoai_embeddings g create self dataset_name embedding_model_deployment_name
             text_column_name embeddings_column_name model_name),
      self)"

section \<open>\<^verbatim>\<open>chat_with_my_data\<close>\<close>

text \<open>
  The keyword arguments \<^verbatim>\<open>**embedding_config\<close> are a dictionary from names to strings;
  \<^verbatim>\<open>embedding_config.get(k, None)\<close> is the entry, \<^verbatim>\<open>None\<close> when there is none. A value
  is true in a condition when it is neither \<^verbatim>\<open>None\<close> nor the empty string, and an
  f-string prints \<^verbatim>\<open>None\<close> as the four letters.
\<close>

definition truthy :: "string option \<Rightarrow> bool" where
  "truthy v = (case v of None \<Rightarrow> False | Some s \<Rightarrow> s \<noteq> [])"

definition format_value :: "string option \<Rightarrow> string" where
  "format_value v = (case v of None \<Rightarrow> ''None'' | Some s \<Rightarrow> s)"

text \<open>The string attribute \<open>attr\<close> of the module bound to the global \<open>name\<close>.\<close>

definition global_attribute :: "globals \<Rightarrow> string \<Rightarrow> string \<Rightarrow> exn + string" where
  "global_attribute g name attr =
     (case g name of
        None \<Rightarrow> Inl (NameError name)
      | Some (Str s) \<Rightarrow> Inl (AttributeError attr)
      | Some (Module attrs) \<Rightarrow>
          (case map_of attrs attr of
             None \<Rightarrow> Inl (AttributeError attr)
           | Some v \<Rightarrow> Inr v))"

record data_source_parameters =
  endpoint :: string
  encodedApiKey :: string
  indexName :: string
  queryType :: string
  embeddingModelId :: "string option"
  embeddingEndpoint :: "string option"
  embeddingKey :: "string option"

record chat_request =
  messages :: "(string \<times> string) list"
  dataSources :: "(string \<times> data_source_parameters) list"
  deployment_id :: string

text \<open>
  \<^verbatim>\<open>
  elasticsearch_embedding_model = embedding_config.get("elasticsearch_embedding_model", None)
  aoai_embedding_model = embedding_config.get("aoai_embedding_model", None)
  aoai_embedding_key = embedding_config.get("aoai_embedding_key", None)
  aoai_embedding_endpoint = None if not aoai_embedding_model and not aoai_embedding_key \
      else f"{openapi.api_base}/openai/deployments/{aoai_embedding_model}/embeddings?api-version=2023-03-15-preview"
  \<close>
  The f-string reads the attribute \<^verbatim>\<open>api_base\<close> of the global \<^verbatim>\<open>openapi\<close>.
\<close>

definition aoai_embedding_endpoint_of ::
  "globals \<Rightarrow> string option \<Rightarrow> string option \<Rightarrow> exn + string option" where
  "aoai_embedding_endpoint_of g aoai_embedding_model aoai_embedding_key =
     (if \<not> truthy aoai_embedding_model \<and> \<not> truthy aoai_embedding_key then Inr None
      else
        (case global_attribute g ''openapi'' ''api_base'' of
           Inl e \<Rightarrow> Inl e
         | Inr base \<Rightarrow>
             Inr (Some (base @ ''/openai/deployments/'' @ format_value aoai_embedding_model @
                        ''/embeddings?api-version=2023-03-15-preview''))))"

text \<open>
  \<^verbatim>\<open>
  query_type = "vector" if (aoai_embedding_endpoint and aoai_embedding_key) or elasticsearch_embedding_model else "simple"
  \<close>
\<close>

definition query_type_of :: "string option \<Rightarrow> string option \<Rightarrow> string option \<Rightarrow> string" where
  "query_type_of aoai_embedding_endpoint aoai_embedding_key elasticsearch_embedding_model =
     (if (truthy aoai_embedding_endpoint \<and> truthy aoai_embedding_key) \<or>
         truthy elasticsearch_embedding_model
      then ''vector'' else ''simple'')"

text \<open>
  The request \<^verbatim>\<open>openai.ChatCompletion.create\<close> is called with: the message, the data
  source with its parameters, and the deployment.
\<close>

definition chat_request_of ::
  "globals \<Rightarrow> string \<Rightarrow> string \<Rightarrow> string \<Rightarrow> string \<Rightarrow> string \<Rightarrow> (string \<Rightarrow> string option) \<Rightarrow>
   exn + chat_request" where
  "chat_request_of g chat_query aoai_deployment_name elasticsearch_endpoint
       elasticsearch_api_key index_name embedding_config =
     (let elasticsearch_embedding_model = embedding_config ''elasticsearch_embedding_model'';
          aoai_embedding_model = embedding_config ''aoai_embedding_model'';
          aoai_embedding_key = embedding_config ''aoai_embedding_key''
      in case aoai_embedding_endpoint_of g aoai_embedding_model aoai_embedding_key of
           Inl e \<Rightarrow> Inl e
         | Inr aoai_embedding_endpoint \<Rightarrow>
             (let query_type =
                    query_type_of aoai_embedding_endpoint aoai_embedding_key
                      elasticsearch_embedding_model
              in case g ''openai'' of
                   None \<Rightarrow> Inl (NameError ''openai'')
                 | Some (Str s) \<Rightarrow> Inl (AttributeError ''ChatCompletion'')
                 | Some (Module attrs) \<Rightarrow>
                     Inr \<lparr>messages = [(''user'', chat_query)],
                          dataSources =
                            [(''Elasticsearch'',
                              \<lparr>endpoint = elasticsearch_endpoint,
                               encodedApiKey = elasticsearch_api_key,
                               indexName = index_name,
                               queryType = query_type,
                               embeddingModelId = elasticsearch_embedding_model,
                               embeddingEndpoint = aoai_embedding_endpoint,
                               embeddingKey = aoai_embedding_key\<rparr>)],
                          deployment_id = aoai_deployment_name\<rparr>))"

text \<open>
  The chat service is a parameter: a request is answered with an exception or with the
  message contents of the choices. The function prints
  \<^verbatim>\<open>completion.choices[0].message.content\<close>; its result here is the request it sent
  and the text it printed.
\<close>

definition chat_with_my_data ::
  "globals \<Rightarrow> (chat_request \<Rightarrow> exn + string list) \<Rightarrow> string \<Rightarrow> string \<Rightarrow> string \<Rightarrow> string \<Rightarrow>
   string \<Rightarrow> (string \<Rightarrow> string option) \<Rightarrow> exn + chat_request \<times> string" where
  "chat_with_my_data g chat_completion chat_query aoai_deployment_name elasticsearch_endpoint
       elasticsearch_api_key index_name embedding_config =
     (case chat_request_of g chat_query aoai_deployment_name elasticsearch_endpoint
             elasticsearch_api_key index_name embedding_config of
        Inl e \<Rightarrow> Inl e
      | Inr request \<Rightarrow>
          (case chat_completion request of
             Inl e \<Rightarrow> Inl e
           | Inr [] \<Rightarrow> Inl (IndexError ''list index out of range'')
           | Inr (content # choices) \<Rightarrow> Inr (request, content)))"

section \<open>Notions used in the statements and proofs\<close>

text \<open>
  The operations \<^verbatim>\<open>index_data\<close> appends for a list of rows, and the rows of the chunks
  its loop closes or leaves open: \<open>chunked cur rs\<close> lists them from the moment the open
  chunk holds \<open>cur\<close> and the rows \<open>rs\<close> are still to come.
\<close>

definition row_operations :: "string \<Rightarrow> 'r list \<Rightarrow> 'r operation list" where
  "row_operations index_name rs =
     concat (map (\<lambda>row. [IndexAction index_name, Document row]) rs)"

fun chunked :: "'r list \<Rightarrow> 'r list \<Rightarrow> 'r list list" where
  "chunked cur [] = (if cur = [] then [] else [cur])"
| "chunked cur (row # rs) =
     (if length cur < max_operations_chunk_size then chunked (cur @ [row]) rs
      else cur # chunked [] rs)"

text \<open>
  The sizes \<^verbatim>\<open>np.array_split\<close> gives the sections of \<open>n\<close> items in \<open>k\<close> sections, and the
  cutting of a list into consecutive pieces of given sizes.
\<close>

definition section_sizes :: "nat \<Rightarrow> nat \<Rightarrow> nat list" where
  "section_sizes n k = replicate (n mod k) (n div k + 1) @ replicate (k - n mod k) (n div k)"

fun split_sizes :: "nat list \<Rightarrow> 'a list \<Rightarrow> 'a list list" where
  "split_sizes [] xs = []"
| "split_sizes (s # ss) xs = take s xs # split_sizes ss (drop s xs)"

text \<open>
  Concrete inputs: a dataset of two passages and one of seventeen, each held by an
  object under the name \<^verbatim>\<open>msmarco\<close>; a download and a parser that produce the first; an
  embedding provider that answers every request with one vector per text, in order,
  and one that does so for its first twenty requests and raises from then on.
\<close>

definition example_dataframe :: "(string \<times> string, string) dataframe" where
  "example_dataframe =
     \<lparr>rows = [(''0'', ''alpha''), (''1'', ''beta'')],
      columns = [''id'' \<mapsto> fst, ''text'' \<mapsto> snd]\<rparr>"

definition example_self :: "(string \<times> string, string) SampleCsvDatasets" where
  "example_self = \<lparr>self_values = [''msmarco'' \<mapsto> example_dataframe]\<rparr>"

definition example_urlopen :: "string \<Rightarrow> exn + string" where
  "example_urlopen u = Inr (''0'' @ [CHR 0x09] @ ''alpha'' @ [CHR 0x0A] @ ''1'' @ [CHR 0x09] @ ''beta'')"

definition example_read_csv ::
  "string \<Rightarrow> string \<Rightarrow> string list \<Rightarrow> exn + (string \<times> string, string) dataframe" where
  "example_read_csv value delim names = Inr example_dataframe"

definition seventeen_rows :: "(string \<times> string, string) dataframe" where
  "seventeen_rows =
     \<lparr>rows = replicate 17 (''0'', ''passage''),
      columns = [''id'' \<mapsto> fst, ''text'' \<mapsto> snd]\<rparr>"

definition seventeen_self :: "(string \<times> string, string) SampleCsvDatasets" where
  "seventeen_self = \<lparr>self_values = [''msmarco'' \<mapsto> seventeen_rows]\<rparr>"

definition echo_provider :: "(string, string) provider" where
  "echo_provider n deployment texts = Inr (map (\<lambda>t. ''vector of '' @ t) texts)"

definition flaky_provider :: "(string, string) provider" where
  "flaky_provider n deployment texts =
     (if n < 20 then Inr (map (\<lambda>t. ''vector of '' @ t) texts)
      else Inl (Exception ''Too Many Requests''))"

section \<open>The bulk loader\<close>

lemma requests_received: "requests (received q c) = requests c @ [q]"
  by (simp add: received_def)

lemma row_operations_snoc:
  "row_operations n (rs @ [r]) = row_operations n rs @ [IndexAction n, Document r]"
  by (simp add: row_operations_def)

lemma row_operations_empty: "row_operations n rs = [] \<longleftrightarrow> rs = []"
  by (cases rs) (simp_all add: row_operations_def)

lemma length_row_operations: "length (row_operations n rs) = 2 * length rs"
  by (induction rs) (simp_all add: row_operations_def)

lemma operation_rows_row_operations: "operation_rows (row_operations n rs) = rs"
  by (induction rs) (simp_all add: row_operations_def)

text \<open>A chunk built by the loop is well formed, so the bulk request for it succeeds.\<close>

lemma bulk_apply_row_operations: "\<exists>ix'. bulk_apply (row_operations n rs) ix = Inr ix'"
  by (induction rs arbitrary: ix) (simp_all add: row_operations_def)

lemma bulk_row_operations:
  "\<exists>c'. bulk c n (row_operations n rs) b = Inr c' \<and>
        requests c' = requests c @ [Bulk n (row_operations n rs) b]"
proof -
  obtain ix' where "bulk_apply (row_operations n rs) (indices c) = Inr ix'"
    using bulk_apply_row_operations by blast
  then show ?thesis
    by (simp add: bulk_def requests_received)
qed

lemma send_chunks_row_operations:
  "\<exists>c'. send_chunks n (map (row_operations n) rss) c = Inr c' \<and>
        requests c' = requests c @ map (\<lambda>rs. Bulk n (row_operations n rs) True) rss"
proof (induction rss arbitrary: c)
  case Nil
  then show ?case by simp
next
  case (Cons rs rss)
  obtain c1 where c1: "bulk c n (row_operations n rs) True = Inr c1"
      "requests c1 = requests c @ [Bulk n (row_operations n rs) True]"
    using bulk_row_operations by blast
  obtain c2 where c2: "send_chunks n (map (row_operations n) rss) c1 = Inr c2"
      "requests c2 = requests c1 @ map (\<lambda>rs. Bulk n (row_operations n rs) True) rss"
    using Cons.IH by blast
  show ?case using c1 c2 by simp
qed

text \<open>
  The loop, started with the chunks of \<open>sent\<close> closed and the chunk of \<open>cur\<close> open, ends
  (after the last chunk is added when it is not empty) with the chunks of
  \<open>sent @ chunked cur rs\<close>.
\<close>

lemma chunk_rows_chunked:
  "(case chunk_rows n rs (map (row_operations n) sent, row_operations n cur, length cur) of
      (operations_chunks, chunk, chunk_size) \<Rightarrow>
        (if length chunk > 0 then operations_chunks @ [chunk] else operations_chunks)) =
   map (row_operations n) (sent @ chunked cur rs)"
proof (induction rs arbitrary: sent cur)
  case Nil
  then show ?case by (simp add: row_operations_empty)
next
  case (Cons r rs)
  show ?case
  proof (cases "length cur < max_operations_chunk_size")
    case True
    then show ?thesis
      using Cons.IH [of sent "cur @ [r]"] by (simp add: row_operations_snoc)
  next
    case False
    then show ?thesis
      using Cons.IH [of "sent @ [cur]" "[]"] by (simp add: row_operations_def)
  qed
qed

lemma index_data_chunked:
  "\<exists>c'. index_data c rs n = Inr c' \<and>
        requests c' = requests c @ map (\<lambda>rs. Bulk n (row_operations n rs) True) (chunked [] rs)"
proof -
  obtain operations_chunks chunk chunk_size where
    st: "chunk_rows n rs ([], [], 0) = (operations_chunks, chunk, chunk_size)"
    by (cases "chunk_rows n rs ([], [], 0)") auto
  have "(if length chunk > 0 then operations_chunks @ [chunk] else operations_chunks) =
        map (row_operations n) (chunked [] rs)"
    using chunk_rows_chunked [of n rs "[]" "[]"] st by (simp add: row_operations_def)
  then have "index_data c rs n = send_chunks n (map (row_operations n) (chunked [] rs)) c"
    using st by (simp add: index_data_def)
  then show ?thesis
    using send_chunks_row_operations [of n "chunked [] rs" c] by simp
qed

text \<open>
  As long as the rows fit, they all go into the open chunk. Once the open chunk is
  full, the next row closes it and is itself put nowhere: the rows after it start the
  next chunk.
\<close>

lemma chunked_fits:
  "length cur + length rs \<le> max_operations_chunk_size \<Longrightarrow>
   chunked cur rs = (if cur @ rs = [] then [] else [cur @ rs])"
  by (induction rs arbitrary: cur) auto

lemma chunked_overflow:
  "length cur \<le> max_operations_chunk_size \<Longrightarrow>
   max_operations_chunk_size < length cur + length rs \<Longrightarrow>
   chunked cur rs =
     (cur @ take (max_operations_chunk_size - length cur) rs) #
     chunked [] (drop (max_operations_chunk_size - length cur + 1) rs)"
proof (induction rs arbitrary: cur)
  case Nil
  then show ?case by simp
next
  case (Cons r rs)
  show ?case
  proof (cases "length cur < max_operations_chunk_size")
    case True
    then obtain k where k: "max_operations_chunk_size - length cur = Suc k"
      by (metis Suc_diff_Suc)
    have "chunked (cur @ [r]) rs =
            ((cur @ [r]) @ take (max_operations_chunk_size - length (cur @ [r])) rs) #
            chunked [] (drop (max_operations_chunk_size - length (cur @ [r]) + 1) rs)"
      using Cons.prems True by (intro Cons.IH) simp_all
    moreover have "max_operations_chunk_size - length (cur @ [r]) = k"
      using k by simp
    ultimately show ?thesis using True k by simp
  next
    case False
    then have "length cur = max_operations_chunk_size" using Cons.prems by simp
    then show ?thesis by simp
  qed
qed

lemma chunked_25000:
  assumes "length rs = 25000"
  shows "chunked [] rs = [take 10000 rs, take 10000 (drop 10001 rs), drop 20002 rs]"
proof -
  have 1: "chunked [] rs = take 10000 rs # chunked [] (drop 10001 rs)"
    using chunked_overflow [of "[]" rs] assms by (simp add: max_operations_chunk_size_def)
  have 2: "chunked [] (drop 10001 rs) =
             take 10000 (drop 10001 rs) # chunked [] (drop 10001 (drop 10001 rs))"
    using chunked_overflow [of "[]" "drop 10001 rs"] assms
    by (simp add: max_operations_chunk_size_def)
  have 3: "chunked [] (drop 20002 rs) = [drop 20002 rs]"
    using chunked_fits [of "[]" "drop 20002 rs"] assms
    by (auto simp add: max_operations_chunk_size_def)
  show ?thesis using 1 2 3 by simp
qed

lemma chunked_10001:
  assumes "length rs = 10001"
  shows "chunked [] rs = [take 10000 rs]"
proof -
  have "chunked [] rs = take 10000 rs # chunked [] (drop 10001 rs)"
    using chunked_overflow [of "[]" rs] assms by (simp add: max_operations_chunk_size_def)
  then show ?thesis using assms by simp
qed

lemma index_data_fits:
  assumes "rs \<noteq> []" "length rs \<le> max_operations_chunk_size"
  shows "\<exists>c'. index_data c rs n = Inr c' \<and>
           requests c' = requests c @ [Bulk n (row_operations n rs) True]"
  using index_data_chunked [of c rs n] chunked_fits [of "[]" rs] assms by simp

text \<open>
  C5. On 25000 rows (the rows numbered from 0) \<^verbatim>\<open>index_data\<close> sends three bulk
  requests. The first carries the rows 0 to 9999 and the second the rows 10001 to 20000,
  10000 rows each; the third carries the rows 20002 to 24999, which are 4998 rows and
  not 5000. The rows 10000 and 20001 are in no request.
\<close>

theorem index_data_25000_rows:
  "map_sum id (\<lambda>c. map request_rows (requests c))
     (index_data (fresh_client :: (unit, nat) elastic_client) [0..<25000]
        ''msmarco-passagetest2019-unique'') =
   Inr [[0..<10000], [10001..<20001], [20002..<25000]] \<and>
   map length [[0..<10000], [10001..<20001], [20002..<25000::nat]] = [10000, 10000, 4998]"
proof -
  obtain c' where c': "index_data (fresh_client :: (unit, nat) elastic_client) [0..<25000]
        ''msmarco-passagetest2019-unique'' = Inr c'"
     "requests c' = requests (fresh_client :: (unit, nat) elastic_client) @
        map (\<lambda>rs. Bulk ''msmarco-passagetest2019-unique''
               (row_operations ''msmarco-passagetest2019-unique'' rs) True)
          (chunked [] [0..<25000])"
    using index_data_chunked by blast
  have "chunked [] [0..<25000] = [[0..<10000], [10001..<20001], [20002..<25000]]"
    using chunked_25000 [of "[0..<25000]"] by (simp del: upt_rec_numeral)
  then show ?thesis
    using c' by (simp add: fresh_client_def operation_rows_row_operations del: upt_rec_numeral)
qed

text \<open>
  C6. On 10001 rows (numbered from 0) \<^verbatim>\<open>index_data\<close> sends one bulk request, with the
  rows 0 to 9999. The row 10000 is not among them: it is submitted in no request.
\<close>

theorem index_data_10001_rows:
  "map_sum id (\<lambda>c. map request_rows (requests c))
     (index_data (fresh_client :: (unit, nat) elastic_client) [0..<10001]
        ''msmarco-passagetest2019-unique'') =
   Inr [[0..<10000]] \<and> 10000 \<notin> set [0..<10000::nat]"
proof -
  obtain c' where c': "index_data (fresh_client :: (unit, nat) elastic_client) [0..<10001]
        ''msmarco-passagetest2019-unique'' = Inr c'"
     "requests c' = requests (fresh_client :: (unit, nat) elastic_client) @
        map (\<lambda>rs. Bulk ''msmarco-passagetest2019-unique''
               (row_operations ''msmarco-passagetest2019-unique'' rs) True)
          (chunked [] [0..<10001])"
    using index_data_chunked by blast
  have "chunked [] [0..<10001] = [[0..<10000]]"
    using chunked_10001 [of "[0..<10001]"] by (simp del: upt_rec_numeral)
  then show ?thesis
    using c' by (simp add: fresh_client_def operation_rows_row_operations del: upt_rec_numeral)
qed

section \<open>The index manager\<close>

lemma create_index_eq:
  "create_index c index_name properties =
     Inr (c\<lparr>indices :=
              (indices c)(index_name \<mapsto>
                 \<lparr>index_mappings = Properties properties, documents = []\<rparr>),
            requests :=
              requests c @
              [IndicesDelete index_name True, IndicesCreate index_name (Properties properties)]\<rparr>)"
  by (cases "indices c index_name")
     (simp_all add: create_index_def indices_delete_def indices_create_def received_def Let_def)

lemma indices_delete_missing:
  "indices c index_name = None \<Longrightarrow>
   indices_delete c index_name False = Inl (NotFoundError index_name) \<and>
   (\<exists>c'. indices_delete c index_name True = Inr c' \<and> indices c' = indices c)"
  by (simp add: indices_delete_def received_def)

text \<open>
  C8. Whatever the client holds, \<^verbatim>\<open>create_index\<close> returns normally, also when no
  index of the name exists (the delete request carries \<^verbatim>\<open>ignore_unavailable=True\<close>, so
  a missing index is not an error). It sends the delete request and then the create
  request with the mapping \<^verbatim>\<open>{"properties": properties}\<close>. Afterwards the name is bound to
  an index with that mapping and no documents, whatever it held before, and the other
  indices are as they were. A second call with the same name and mapping returns
  normally too and leaves the same indices: one index of that name, with that mapping.
\<close>

theorem create_index_resets:
  "\<exists>c'. create_index c index_name properties = Inr c' \<and>
        requests c' =
          requests c @
          [IndicesDelete index_name True, IndicesCreate index_name (Properties properties)] \<and>
        indices c' =
          (indices c)(index_name \<mapsto>
             \<lparr>index_mappings = Properties properties, documents = []\<rparr>) \<and>
        (\<exists>c''. create_index c' index_name properties = Inr c'' \<and> indices c'' = indices c')"
  by (simp add: create_index_eq)

section \<open>The query dispatcher\<close>

text \<open>The two modes the code reaches: no embedding parameter, and an in-engine model.\<close>

lemma query_type_simple:
  "embedding_config ''elasticsearch_embedding_model'' = None \<Longrightarrow>
   embedding_config ''aoai_embedding_model'' = None \<Longrightarrow>
   embedding_config ''aoai_embedding_key'' = None \<Longrightarrow>
   g ''openai'' = Some (Module attrs) \<Longrightarrow>
   \<exists>r. chat_request_of g q d e k i embedding_config = Inr r \<and>
       map (queryType \<circ> snd) (dataSources r) = [''simple'']"
  by (simp add: chat_request_of_def aoai_embedding_endpoint_of_def truthy_def query_type_of_def)

lemma query_type_elasticsearch:
  "truthy (embedding_config ''elasticsearch_embedding_model'') \<Longrightarrow>
   embedding_config ''aoai_embedding_model'' = None \<Longrightarrow>
   embedding_config ''aoai_embedding_key'' = None \<Longrightarrow>
   g ''openai'' = Some (Module attrs) \<Longrightarrow>
   \<exists>r. chat_request_of g q d e k i embedding_config = Inr r \<and>
       map (queryType \<circ> snd) (dataSources r) = [''vector'']"
  by (simp add: chat_request_of_def aoai_embedding_endpoint_of_def truthy_def query_type_of_def)

text \<open>
  With an Azure OpenAI embedding model or key, the endpoint is built from
  \<^verbatim>\<open>openapi.api_base\<close>; where no global \<^verbatim>\<open>openapi\<close> is bound, that raises.
\<close>

lemma query_type_aoai_unbound:
  "truthy (embedding_config ''aoai_embedding_model'') \<or>
   truthy (embedding_config ''aoai_embedding_key'') \<Longrightarrow>
   g ''openapi'' = None \<Longrightarrow>
   chat_request_of g q d e k i embedding_config = Inl (NameError ''openapi'')"
  by (auto simp add: chat_request_of_def aoai_embedding_endpoint_of_def global_attribute_def)

text \<open>
  C7. The call of the notebook's third example, with the deployment of the Azure OpenAI
  embedding model and its key: \<^verbatim>\<open>chat_with_my_data\<close> raises \<^verbatim>\<open>NameError\<close> for \<^verbatim>\<open>openapi\<close>.
  No query mode is chosen and no request is sent.
\<close>

theorem chat_with_my_data_aoai_raises:
  "chat_with_my_data (notebook_globals example_settings) (\<lambda>request. Inr [''answer''])
     ''What's the weather like in Jamaica?'' ''gpt-35-turbo'' ''https://es.example'' ''es-key''
     ''msmarco-passagetest2019-unique-text-embedding-ada-002''
     [''aoai_embedding_model'' \<mapsto> ''text-embedding-ada-002'',
      ''aoai_embedding_key'' \<mapsto> ''aoai-key''] =
   Inl (NameError ''openapi'')"
  by (simp add: chat_with_my_data_def chat_request_of_def aoai_embedding_endpoint_of_def
      global_attribute_def notebook_globals_def truthy_def)

section \<open>The dataset loader\<close>

text \<open>
  C10. The constructor, run on the one configured dataset, stores a dataframe under
  \<^verbatim>\<open>msmarco\<close> and ends its loop with its local \<^verbatim>\<open>name\<close> bound to \<^verbatim>\<open>msmarco\<close>. On that
  object, with the globals of the notebook, \<^verbatim>\<open>get_dataframe("msmarco")\<close> returns no
  dataframe: its body reads the free name \<^verbatim>\<open>name\<close>, which no cell binds, and raises
  \<^verbatim>\<open>NameError\<close>.
\<close>

theorem get_dataframe_raises_name_error:
  "init_loop example_urlopen example_read_csv datasets (Map.empty, None) =
     Inr ([''msmarco'' \<mapsto> example_dataframe], Some ''msmarco'') \<and>
   init example_urlopen example_read_csv = Inr example_self \<and>
   get_dataframe (notebook_globals example_settings) example_self ''msmarco'' False =
     Inl (NameError ''name'')"
  by (simp add: datasets_def example_urlopen_def example_read_csv_def create_dataframe_def
      init_def example_self_def get_dataframe_def notebook_globals_def)

section \<open>The partitioning step\<close>

lemma length_cumsum_from: "length (cumsum_from a xs) = length xs"
  by (induction xs arbitrary: a) simp_all

lemma cumsum_from_nth:
  "i < length xs \<Longrightarrow> cumsum_from a xs ! i = a + sum_list (take (Suc i) xs)"
proof (induction xs arbitrary: a i)
  case Nil
  then show ?case by simp
next
  case (Cons x xs)
  then show ?case by (cases i) simp_all
qed

lemma div_points_nth:
  "i \<le> length ss \<Longrightarrow> cumsum ([0] @ ss) ! i = sum_list (take i ss)"
  using cumsum_from_nth [of i "0 # ss" 0] by (simp add: cumsum_def)

lemma length_split_sizes: "length (split_sizes ss xs) = length ss"
  by (induction ss arbitrary: xs) simp_all

lemma split_sizes_nth:
  "i < length ss \<Longrightarrow> split_sizes ss xs ! i = take (ss ! i) (drop (sum_list (take i ss)) xs)"
proof (induction ss arbitrary: i xs)
  case Nil
  then show ?case by simp
next
  case (Cons s ss)
  then show ?case by (cases i) (simp_all add: add.commute)
qed

lemma concat_split_sizes: "concat (split_sizes ss xs) = take (sum_list ss) xs"
  by (induction ss arbitrary: xs) (simp_all add: take_add)

lemma map_length_split_sizes:
  "sum_list ss \<le> length xs \<Longrightarrow> map length (split_sizes ss xs) = ss"
  by (induction ss arbitrary: xs) simp_all

lemma length_section_sizes: "0 < k \<Longrightarrow> length (section_sizes n k) = k"
  by (simp add: section_sizes_def)

lemma sum_list_section_sizes: "0 < k \<Longrightarrow> sum_list (section_sizes n k) = n"
proof -
  assume "0 < k"
  then have "n mod k \<le> k" by simp
  have "sum_list (section_sizes n k) = (n mod k) * (n div k + 1) + (k - n mod k) * (n div k)"
    by (simp add: section_sizes_def sum_list_replicate)
  also have "\<dots> = n mod k + (n mod k + (k - n mod k)) * (n div k)"
    by (simp add: algebra_simps)
  also have "\<dots> = n mod k + k * (n div k)"
    using \<open>n mod k \<le> k\<close> by simp
  finally show ?thesis by simp
qed

text \<open>The sections numpy cuts by its division points are the consecutive pieces.\<close>

lemma array_split_sections:
  assumes "0 < k"
  shows "array_split ary k = Inr (split_sizes (section_sizes (length ary) k) ary)"
proof -
  let ?ss = "section_sizes (length ary) k"
  let ?dp = "cumsum ([0] @ ?ss)"
  have len: "length ?ss = k" using assms by (rule length_section_sizes)
  have "map (\<lambda>i. slice ary (?dp ! i) (?dp ! (i + 1))) [0..<k] = split_sizes ?ss ary"
  proof (rule nth_equalityI)
    show "length (map (\<lambda>i. slice ary (?dp ! i) (?dp ! (i + 1))) [0..<k]) =
          length (split_sizes ?ss ary)"
      by (simp add: length_split_sizes len)
  next
    fix i
    assume "i < length (map (\<lambda>i. slice ary (?dp ! i) (?dp ! (i + 1))) [0..<k])"
    then have i: "i < length ?ss" by (simp add: len)
    have "?dp ! i = sum_list (take i ?ss)"
      using i by (intro div_points_nth) simp
    moreover have "?dp ! (i + 1) = sum_list (take (i + 1) ?ss)"
      using i by (intro div_points_nth) simp
    moreover have "sum_list (take (i + 1) ?ss) = sum_list (take i ?ss) + ?ss ! i"
      using i by (simp add: take_Suc_conv_app_nth)
    ultimately have "slice ary (?dp ! i) (?dp ! (i + 1)) =
                     take (?ss ! i) (drop (sum_list (take i ?ss)) ary)"
      by (simp add: slice_def)
    then show "map (\<lambda>i. slice ary (?dp ! i) (?dp ! (i + 1))) [0..<k] ! i =
               split_sizes ?ss ary ! i"
      using i by (simp add: split_sizes_nth len)
  qed
  then show ?thesis
    using assms by (simp add: array_split_def section_sizes_def Let_def)
qed

text \<open>The number of buckets is the ceiling \<^verbatim>\<open>math.ceil\<close> takes of the quotient.\<close>

lemma number_of_buckets_ceiling:
  "int (number_of_buckets df) = \<lceil>real (length (rows df)) / real maximum_batch_size\<rceil>"
proof -
  let ?n = "length (rows df)"
  have "\<lceil>real ?n / 16\<rceil> = \<lceil>of_int (int ?n) / (of_int 16 :: real)\<rceil>" by simp
  also have "\<dots> = - (- int ?n div 16)" by (rule ceiling_divide_eq_div)
  also have "\<dots> = (int ?n + 15) div 16" by linarith
  also have "\<dots> = int ((?n + 15) div 16)" by (simp add: zdiv_int)
  finally show ?thesis
    by (simp add: number_of_buckets_def maximum_batch_size_def)
qed

lemma buckets_cover:
  "length (rows df) \<le> maximum_batch_size * number_of_buckets df"
  by (simp add: number_of_buckets_def maximum_batch_size_def)

lemma buckets_positive: "rows df \<noteq> [] \<Longrightarrow> 0 < number_of_buckets df"
  by (cases "rows df") (simp_all add: number_of_buckets_def maximum_batch_size_def)

lemma buckets_le_rows: "rows df \<noteq> [] \<Longrightarrow> number_of_buckets df \<le> length (rows df)"
  by (cases "rows df") (simp_all add: number_of_buckets_def maximum_batch_size_def)

lemma section_size_bounds:
  assumes "0 < k" "k \<le> n" "n \<le> b * k" "s \<in> set (section_sizes n k)"
  shows "1 \<le> s \<and> s \<le> b"
proof -
  have q1: "1 \<le> n div k"
    using assms(1,2) by (simp add: Suc_le_eq div_greater_zero_iff)
  have eq: "k * (n div k) + n mod k = n" by simp
  have qb: "n div k \<le> b"
  proof (rule ccontr)
    assume "\<not> n div k \<le> b"
    then have "Suc b \<le> n div k" by simp
    then have "k * Suc b \<le> k * (n div k)" by (rule mult_le_mono2)
    then have "k * Suc b \<le> n" using eq by linarith
    then show False using assms(1,3) by (simp add: mult.commute)
  qed
  have qb': "n div k + 1 \<le> b" if "n mod k \<noteq> 0"
  proof (rule ccontr)
    assume "\<not> n div k + 1 \<le> b"
    then have "b \<le> n div k" by simp
    then have "k * b \<le> k * (n div k)" by (rule mult_le_mono2)
    then have "k * b < n" using eq that by linarith
    then show False using assms(3) by (simp add: mult.commute)
  qed
  from assms(4) consider "s = n div k + 1" "n mod k \<noteq> 0" | "s = n div k"
    by (auto simp add: section_sizes_def)
  then show ?thesis
    using q1 qb qb' by cases simp_all
qed

lemma partitions_of_sections:
  assumes "rows df \<noteq> []"
  shows "partitions_of df =
           Inr (map (\<lambda>part. df\<lparr>rows := part\<rparr>)
                  (split_sizes (section_sizes (length (rows df)) (number_of_buckets df))
                     (rows df)))"
  using array_split_sections [OF buckets_positive [OF assms], of "rows df"]
  by (simp add: partitions_of_def)

lemma partitions_of_length:
  assumes "rows df \<noteq> []"
  shows "\<exists>parts. partitions_of df = Inr parts \<and> length parts = number_of_buckets df"
  using partitions_of_sections [OF assms] buckets_positive [OF assms]
  by (simp add: length_split_sizes length_section_sizes)

text \<open>
  C4, as the code has it. A dataframe with at least one row is cut into
  \<open>k = \<lceil>n / 16\<rceil>\<close> parts that, put end to end, are its rows in their order. The parts
  are balanced, not filled: the first \<open>n mod k\<close> of them have \<open>n div k + 1\<close> rows and the
  others \<open>n div k\<close>. Each part has the columns of the dataframe, at least one row and at
  most 16.
\<close>

theorem partitions_balanced:
  assumes "rows df \<noteq> []"
  shows "\<exists>parts. partitions_of df = Inr parts \<and>
           concat (map rows parts) = rows df \<and>
           length parts = number_of_buckets df \<and>
           map (length \<circ> rows) parts =
             replicate (length (rows df) mod number_of_buckets df)
               (length (rows df) div number_of_buckets df + 1) @
             replicate (number_of_buckets df - length (rows df) mod number_of_buckets df)
               (length (rows df) div number_of_buckets df) \<and>
           (\<forall>part \<in> set parts.
              columns part = columns df \<and>
              1 \<le> length (rows part) \<and> length (rows part) \<le> maximum_batch_size)"
proof -
  let ?n = "length (rows df)"
  let ?k = "number_of_buckets df"
  let ?ss = "section_sizes ?n ?k"
  let ?parts = "map (\<lambda>part. df\<lparr>rows := part\<rparr>) (split_sizes ?ss (rows df))"
  have k: "0 < ?k" using assms by (rule buckets_positive)
  have sum: "sum_list ?ss = ?n" using k by (rule sum_list_section_sizes)
  have rows_parts: "map rows ?parts = split_sizes ?ss (rows df)"
    by (simp add: comp_def)
  have lens: "map (length \<circ> rows) ?parts = ?ss"
    using map_length_split_sizes [of ?ss "rows df"] sum by (simp add: comp_def)
  have 1: "partitions_of df = Inr ?parts"
    using assms by (rule partitions_of_sections)
  have 2: "concat (map rows ?parts) = rows df"
    using sum by (simp only: rows_parts concat_split_sizes) simp
  have 3: "length ?parts = ?k"
    using k by (simp add: length_split_sizes length_section_sizes)
  have 4: "\<forall>part \<in> set ?parts.
             columns part = columns df \<and>
             1 \<le> length (rows part) \<and> length (rows part) \<le> maximum_batch_size"
  proof
    fix part
    assume part: "part \<in> set ?parts"
    then have "length (rows part) \<in> set (map (length \<circ> rows) ?parts)"
      by (metis comp_apply image_eqI list.set_map)
    then have "length (rows part) \<in> set ?ss" by (simp only: lens)
    then have "1 \<le> length (rows part) \<and> length (rows part) \<le> maximum_batch_size"
      using section_size_bounds [OF k buckets_le_rows [OF assms] buckets_cover] by blast
    moreover have "columns part = columns df" using part by auto
    ultimately show "columns part = columns df \<and>
             1 \<le> length (rows part) \<and> length (rows part) \<le> maximum_batch_size" by simp
  qed
  show ?thesis
    using 1 2 3 4 lens by (auto simp add: section_sizes_def simp del: map_map)
qed

lemma seventeen_rows_facts:
  "rows seventeen_rows \<noteq> []" "length (rows seventeen_rows) = 17"
  "number_of_buckets seventeen_rows = 2"
  by (simp_all add: seventeen_rows_def number_of_buckets_def maximum_batch_size_def)

theorem partitions_balanced_witness:
  "rows seventeen_rows \<noteq> [] \<and>
   (\<exists>parts. partitions_of seventeen_rows = Inr parts \<and>
      concat (map rows parts) = rows seventeen_rows \<and>
      map (length \<circ> rows) parts = [9, 8])"
proof -
  have "replicate (17 mod 2) (17 div 2 + 1) @ replicate (2 - 17 mod 2) (17 div 2) = [9, 8::nat]"
    by code_simp
  then show ?thesis
    using partitions_balanced [OF seventeen_rows_facts(1)]
    by (auto simp add: seventeen_rows_facts simp del: map_map)
qed

text \<open>
  C4, as stated, fails: seventeen rows are cut into a part of nine rows and a part of
  eight, so the part that is not the last has nine rows and not sixteen.
\<close>

theorem partitions_counterexample:
  "map_sum id (map (length \<circ> rows)) (partitions_of seventeen_rows) = Inr [9, 8]"
  by code_simp

section \<open>The embedding batcher\<close>

text \<open>
  An attempt whose request cannot be built, or whose request the provider refuses,
  leaves the flag as it was; an attempt whose request can be built is one more request.
\<close>

lemma attempt_input_error:
  "embedding_input g part col = Inl e \<Longrightarrow> fst (attempt g create dep col part x) = fst x"
  by (cases x) (simp add: attempt_def)

lemma attempt_calls:
  "embedding_input g part col = Inr texts \<Longrightarrow>
   calls (snd (attempt g create dep col part x)) = calls (snd x) + 1"
  by (cases x) (simp add: attempt_def split: sum.splits)

lemma attempt_failed:
  "embedding_input g part col = Inr texts \<Longrightarrow> isl (create (calls (snd x)) dep texts) \<Longrightarrow>
   fst (attempt g create dep col part x) = fst x"
  by (cases x) (auto simp add: attempt_def split: sum.splits)

lemma retries_input_error:
  "embedding_input g part col = Inl e \<Longrightarrow>
   fst ((attempt g create dep col part ^^ n) x) = fst x"
  by (induction n) (simp_all add: attempt_input_error)

lemma retries_calls:
  "embedding_input g part col = Inr texts \<Longrightarrow>
   calls (snd ((attempt g create dep col part ^^ n) x)) = calls (snd x) + n"
  by (induction n) (simp_all add: attempt_calls)

lemma retries_failed:
  assumes "embedding_input g part col = Inr texts"
    and "\<forall>i<n. isl (create (calls (snd x) + i) dep texts)"
  shows "fst ((attempt g create dep col part ^^ n) x) = fst x"
  using assms(2)
proof (induction n)
  case 0
  then show ?case by simp
next
  case (Suc n)
  have "isl (create (calls (snd ((attempt g create dep col part ^^ n) x))) dep texts)"
    using Suc.prems assms(1) by (simp add: retries_calls)
  then have "fst ((attempt g create dep col part ^^ Suc n) x) =
             fst ((attempt g create dep col part ^^ n) x)"
    using assms(1) by (simp add: attempt_failed)
  then show ?case using Suc by simp
qed

text \<open>
  Every part before the \<open>j\<close>-th that does not end the run has had its \<^verbatim>\<open>retry_count\<close>
  requests, so the attempts for the \<open>j\<close>-th part are the requests number
  \<open>retry_count * j + i\<close> after those already made. When they all fail, the run ends with
  the fatal error, at that part or at an earlier one.
\<close>

lemma embed_partitions_fatal:
  assumes "j < length parts"
    and "\<forall>i<retry_count. \<forall>texts.
           embedding_input g (parts ! j) col = Inr texts \<longrightarrow>
           isl (create (calls l + retry_count * j + i) dep texts)"
  shows "fst (embed_partitions g create dep col parts l) = Inl unable"
  using assms
proof (induction parts arbitrary: j l)
  case Nil
  then show ?case by simp
next
  case (Cons part parts)
  obtain success l' where run:
    "(attempt g create dep col part ^^ retry_count) (False, l) = (success, l')"
    by (cases "(attempt g create dep col part ^^ retry_count) (False, l)") auto
  show ?case
  proof (cases success)
    case False
    then show ?thesis using run by simp
  next
    case True
    have "\<exists>texts. embedding_input g part col = Inr texts"
    proof (cases "embedding_input g part col")
      case (Inl e)
      then have "fst ((attempt g create dep col part ^^ retry_count) (False, l)) = fst (False, l)"
        by (rule retries_input_error)
      then show ?thesis using run True by simp
    next
      case (Inr texts)
      then show ?thesis by blast
    qed
    then obtain texts where texts: "embedding_input g part col = Inr texts" ..
    have "calls (snd ((attempt g create dep col part ^^ retry_count) (False, l))) =
          calls (snd (False, l)) + retry_count"
      using texts by (rule retries_calls)
    then have calls: "calls l' = calls l + retry_count"
      using run by simp
    show ?thesis
    proof (cases j)
      case 0
      have "\<forall>i<retry_count. isl (create (calls (snd (False, l)) + i) dep texts)"
      proof (intro allI impI)
        fix i
        assume "i < retry_count"
        then have "isl (create (calls l + retry_count * j + i) dep texts)"
          using Cons.prems(2) texts 0 by auto
        then show "isl (create (calls (snd (False, l)) + i) dep texts)"
          using 0 by simp
      qed
      with texts
      have "fst ((attempt g create dep col part ^^ retry_count) (False, l)) = fst (False, l)"
        by (rule retries_failed)
      then show ?thesis using run True by simp
    next
      case (Suc j')
      have "fst (embed_partitions g create dep col parts l') = Inl unable"
      proof (rule Cons.IH)
        show "j' < length parts" using Cons.prems(1) Suc by simp
        show "\<forall>i<retry_count. \<forall>texts.
                embedding_input g (parts ! j') col = Inr texts \<longrightarrow>
                isl (create (calls l' + retry_count * j' + i) dep texts)"
        proof (intro allI impI)
          fix i texts'
          assume i: "i < retry_count"
            and input: "embedding_input g (parts ! j') col = Inr texts'"
          have "embedding_input g ((part # parts) ! j) col = Inr texts'"
            using input Suc by simp
          with Cons.prems(2) i
          have "isl (create (calls l + retry_count * j + i) dep texts')" by blast
          moreover have "calls l + retry_count * j + i = calls l' + retry_count * j' + i"
            using Suc calls by simp
          ultimately show "isl (create (calls l' + retry_count * j' + i) dep texts')"
            by simp
        qed
      qed
      then show ?thesis using run True by simp
    qed
  qed
qed

lemma run_fatal:
  assumes "self_values self dataset_name = Some df"
    and "partitions_of df = Inr parts"
    and "fst (embed_partitions g create dep col parts initial_locals) = Inl e"
  shows "fst (run_aoai_embeddings g create self dataset_name dep col ecol model) = Inl e"
  using assms
  by (cases "embed_partitions g create dep col parts initial_locals")
     (simp add: run_aoai_embeddings_def)

text \<open>
  C2. The dataset is found and cut into parts, and for one of the parts, the \<open>j\<close>-th,
  the provider raises on each of the \<^verbatim>\<open>retry_count\<close> requests made for it. Then the
  method raises the exception "Unable to generate embeddings ...", and the object is
  the one passed in: the caller gets no embeddings, for no row.
\<close>

theorem fatal_when_batch_exhausted:
  assumes "self_values self dataset_name = Some df"
    and "partitions_of df = Inr parts"
    and "j < length parts"
    and "\<forall>i<retry_count. \<forall>texts.
           embedding_input g (parts ! j) text_column_name = Inr texts \<longrightarrow>
           isl (create (retry_count * j + i) deployment texts)"
  shows "get_dataframe_with_aoai_embeddings g create self dataset_name deployment
           text_column_name embeddings_column_name model_name = (Inl unable, self)"
proof -
  have "fst (embed_partitions g create deployment text_column_name parts initial_locals) =
        Inl unable"
    using assms(3,4) by (intro embed_partitions_fatal) (simp_all add: initial_locals_def)
  then show ?thesis
    using run_fatal [OF assms(1,2)] by (simp add: get_dataframe_with_aoai_embeddings_def)
qed

text \<open>
  Seventeen rows are two parts. The provider answers the twenty requests made for the
  first part and raises on the twenty made for the second: the method raises the fatal
  error and hands nothing over, though the first part had its embeddings.
\<close>

theorem fatal_when_batch_exhausted_witness:
  "get_dataframe_with_aoai_embeddings (notebook_globals example_settings) flaky_provider
     seventeen_self ''msmarco'' ''text-embedding-ada-002'' ''text''
     ''text_embedding.aoai_predicted_value'' ''text-embedding-ada-002'' =
   (Inl unable, seventeen_self)"
proof -
  obtain parts where parts: "partitions_of seventeen_rows = Inr parts" "length parts = 2"
    using partitions_of_length [OF seventeen_rows_facts(1)] seventeen_rows_facts(3) by auto
  have found: "self_values seventeen_self ''msmarco'' = Some seventeen_rows"
    by (simp add: seventeen_self_def)
  have second: "(1::nat) < length parts" using parts(2) by simp
  have fails: "\<forall>i<retry_count. \<forall>texts.
           embedding_input (notebook_globals example_settings) (parts ! 1) ''text'' = Inr texts \<longrightarrow>
           isl (flaky_provider (retry_count * 1 + i) ''text-embedding-ada-002'' texts)"
    by (simp add: flaky_provider_def retry_count_def)
  show ?thesis
    using found parts(1) second fails
    by (rule fatal_when_batch_exhausted
         [where j = 1 and create = flaky_provider and deployment = "''text-embedding-ada-002''"])
qed

text \<open>
  Whatever the globals and the provider, the object after the call is the object before
  it; and where \<^verbatim>\<open>text_embeddings_column_name\<close> is unbound, the method does not return.
\<close>

lemma object_unchanged:
  "snd (get_dataframe_with_aoai_embeddings g create self dataset_name dep col ecol model) = self"
  by (simp add: get_dataframe_with_aoai_embeddings_def)

lemma run_never_returns:
  "g ''text_embeddings_column_name'' = None \<Longrightarrow>
   fst (run_aoai_embeddings g create self dataset_name dep col ecol model) \<noteq> Inr u"
  by (auto simp add: run_aoai_embeddings_def compare_and_report_def
      split: option.splits sum.splits prod.splits)

text \<open>
  When the provider answers every request for a part, the part is requested
  \<^verbatim>\<open>retry_count\<close> times all the same: each of the requests adds its vectors and its
  pause.
\<close>

lemma attempt_succeeded:
  assumes "embedding_input g part col = Inr texts"
    and "create (calls l) dep texts = Inr vectors"
  shows "attempt g create dep col part (success, l) =
           (True,
            l\<lparr>embeddings := embeddings l @ vectors,
              sleeps := sleeps l @ [throttling_interval],
              request_times := request_times l + 1,
              calls := calls l + 1\<rparr>)"
  using assms by (simp add: attempt_def)

lemma retries_all_succeed:
  assumes "embedding_input g part col = Inr texts"
    and "\<forall>k. create k dep texts = Inr vectors"
  shows "(attempt g create dep col part ^^ n) (success, l) =
           (success \<or> 0 < n,
            l\<lparr>embeddings := embeddings l @ concat (replicate n vectors),
              sleeps := sleeps l @ replicate n throttling_interval,
              request_times := request_times l + n,
              calls := calls l + n\<rparr>)"
proof (induction n)
  case 0
  then show ?case by simp
next
  case (Suc n)
  have "concat (replicate n vectors) @ vectors = vectors @ concat (replicate n vectors)"
    by (induction n) simp_all
  moreover have "replicate n throttling_interval @ [throttling_interval] =
                 throttling_interval # replicate n throttling_interval"
    by (simp add: replicate_append_same)
  ultimately show ?case
    using Suc assms by (simp add: attempt_succeeded)
qed

text \<open>
  C1. Two passages, and a provider that answers every request with one vector per
  text, in order. The method gathers forty vectors for the two texts: the two vectors,
  twenty times over, so that the vector at position 2 is the one of the text at
  position 0.
\<close>

theorem embeddings_twenty_fold:
  "embeddings (snd (run_aoai_embeddings (notebook_globals example_settings) echo_provider
       example_self ''msmarco'' ''text-embedding-ada-002'' ''text''
       ''text_embedding.aoai_predicted_value'' ''text-embedding-ada-002'')) =
   concat (replicate 20 [''vector of alpha'', ''vector of beta''])"
  by code_simp

text \<open>
  C3. On the same input, where the one batch succeeds at its first attempt, the method
  makes twenty requests for the batch and pauses for the throttling interval of 0.5
  twenty times, once after each.
\<close>

theorem twenty_throttling_pauses:
  "sleeps (snd (run_aoai_embeddings (notebook_globals example_settings) echo_provider
       example_self ''msmarco'' ''text-embedding-ada-002'' ''text''
       ''text_embedding.aoai_predicted_value'' ''text-embedding-ada-002'')) =
     replicate 20 0.5 \<and>
   calls (snd (run_aoai_embeddings (notebook_globals example_settings) echo_provider
       example_self ''msmarco'' ''text-embedding-ada-002'' ''text''
       ''text_embedding.aoai_predicted_value'' ''text-embedding-ada-002'')) = 20"
  by code_simp

text \<open>
  C9. On the same input every batch succeeds, and the method raises \<^verbatim>\<open>NameError\<close> for
  \<^verbatim>\<open>text_embeddings_column_name\<close> where it should store the vectors. The object is the
  one passed in, and its dataframe has no column of embeddings.
\<close>

theorem embeddings_column_not_set:
  "get_dataframe_with_aoai_embeddings (notebook_globals example_settings) echo_provider
       example_self ''msmarco'' ''text-embedding-ada-002'' ''text''
       ''text_embedding.aoai_predicted_value'' ''text-embedding-ada-002'' =
     (Inl (NameError ''text_embeddings_column_name''), example_self) \<and>
   self_values example_self ''msmarco'' = Some example_dataframe \<and>
   columns example_dataframe ''text_embedding.aoai_predicted_value'' = None"
proof -
  have "fst (run_aoai_embeddings (notebook_globals example_settings) echo_provider
       example_self ''msmarco'' ''text-embedding-ada-002'' ''text''
       ''text_embedding.aoai_predicted_value'' ''text-embedding-ada-002'') =
     Inl (NameError ''text_embeddings_column_name'')"
    by code_simp
  then show ?thesis
    by (simp add: get_dataframe_with_aoai_embeddings_def example_dataframe_def example_self_def)
qed

end
